theory Spec2Isabelle
  imports Complex_Main
begin

section \<open>JavaScript numbers\<close>

text \<open>
  The routes compute with JavaScript Number values, that is IEEE 754 binary64 values.
  A Number is modelled by its mathematical value: a rational for a finite value, or one
  of the three special values. Every arithmetic operation computes the exact rational
  result and rounds it to the nearest binary64 value, ties to even, as the language
  specification prescribes. The one simplification is that the two zeros are identified:
  both are falsy, they compare equal, they print alike, and the code modelled below never
  divides by a zero (the divisors are \<open>currentPrice\<close>, which is truthy, and 100).
\<close>

datatype jsnum = Fin rat | PInf | NInf | NaN

function blen :: "int \<Rightarrow> int" where
  "blen n = (if n \<le> 0 then 0 else 1 + blen (n div 2))"
  by pat_completeness auto
termination
  by (relation "measure nat") auto

declare blen.simps [simp del]

definition pow2 :: "int \<Rightarrow> rat" where
  "pow2 k = (if 0 \<le> k then 2 ^ nat k else 1 / 2 ^ nat (- k))"

text \<open>\<open>ilog2 a\<close> is the binary exponent of a positive rational: \<open>2^(ilog2 a) \<le> a < 2^(ilog2 a + 1)\<close>.\<close>

definition ilog2 :: "rat \<Rightarrow> int" where
  "ilog2 a = (if 1 \<le> a then blen \<lfloor>a\<rfloor> - 1 else - blen (\<lceil>1 / a\<rceil> - 1))"

definition round_half_even :: "rat \<Rightarrow> int" where
  "round_half_even y =
     (let f = \<lfloor>y\<rfloor>; r = y - of_int f
      in if r < 1 / 2 then f else if 1 / 2 < r then f + 1 else if even f then f else f + 1)"

text \<open>
  \<open>number_value x\<close> is the Number for the real \<open>x\<close>: the significand has 53 bits, the
  least exponent of the last place is -1074 (subnormals), and a rounded magnitude of
  \<open>2^1024\<close> or more is an infinity.
\<close>

definition number_value :: "rat \<Rightarrow> jsnum" where
  "number_value x =
     (if x = 0 then Fin 0
      else let a = \<bar>x\<bar>;
               e = max (ilog2 a - 52) (- 1074);
               v = of_int (round_half_even (a / pow2 e)) * pow2 e
           in if pow2 1024 \<le> v then (if 0 < x then PInf else NInf)
              else Fin (if 0 < x then v else - v))"

definition sign_of :: "jsnum \<Rightarrow> int" where
  "sign_of x = (case x of Fin a \<Rightarrow> (if 0 < a then 1 else if a < 0 then - 1 else 0)
                | PInf \<Rightarrow> 1 | NInf \<Rightarrow> - 1 | NaN \<Rightarrow> 0)"

definition inf_of_sign :: "int \<Rightarrow> jsnum" where
  "inf_of_sign s = (if s = 0 then NaN else if 0 < s then PInf else NInf)"

definition js_mul :: "jsnum \<Rightarrow> jsnum \<Rightarrow> jsnum" where
  "js_mul x y =
     (case (x, y) of
        (NaN, _) \<Rightarrow> NaN
      | (_, NaN) \<Rightarrow> NaN
      | (Fin a, Fin b) \<Rightarrow> number_value (a * b)
      | _ \<Rightarrow> inf_of_sign (sign_of x * sign_of y))"

definition js_sub :: "jsnum \<Rightarrow> jsnum \<Rightarrow> jsnum" where
  "js_sub x y =
     (case (x, y) of
        (NaN, _) \<Rightarrow> NaN
      | (_, NaN) \<Rightarrow> NaN
      | (Fin a, Fin b) \<Rightarrow> number_value (a - b)
      | (Fin a, PInf) \<Rightarrow> NInf
      | (Fin a, NInf) \<Rightarrow> PInf
      | (PInf, PInf) \<Rightarrow> NaN
      | (PInf, _) \<Rightarrow> PInf
      | (NInf, NInf) \<Rightarrow> NaN
      | (NInf, _) \<Rightarrow> NInf)"

definition js_div :: "jsnum \<Rightarrow> jsnum \<Rightarrow> jsnum" where
  "js_div x y =
     (case (x, y) of
        (NaN, _) \<Rightarrow> NaN
      | (_, NaN) \<Rightarrow> NaN
      | (Fin a, Fin b) \<Rightarrow> (if b = 0 then inf_of_sign (sign_of x) else number_value (a / b))
      | (Fin a, _) \<Rightarrow> Fin 0
      | (_, Fin b) \<Rightarrow> inf_of_sign (sign_of x * (if b < 0 then - 1 else 1))
      | _ \<Rightarrow> NaN)"

definition js_lt :: "jsnum \<Rightarrow> jsnum \<Rightarrow> bool" where
  "js_lt x y =
     (case (x, y) of
        (NaN, _) \<Rightarrow> False
      | (_, NaN) \<Rightarrow> False
      | (Fin a, Fin b) \<Rightarrow> a < b
      | (_, NInf) \<Rightarrow> False
      | (NInf, _) \<Rightarrow> True
      | (PInf, _) \<Rightarrow> False
      | (_, PInf) \<Rightarrow> True)"

definition js_gt :: "jsnum \<Rightarrow> jsnum \<Rightarrow> bool" where
  "js_gt x y = js_lt y x"

definition js_le :: "jsnum \<Rightarrow> jsnum \<Rightarrow> bool" where
  "js_le x y = (x \<noteq> NaN \<and> y \<noteq> NaN \<and> \<not> js_lt y x)"

text \<open>\<open>Math.round\<close>: the nearest integer, ties towards plus infinity; the result is exact.\<close>

definition math_round :: "jsnum \<Rightarrow> jsnum" where
  "math_round x = (case x of Fin a \<Rightarrow> Fin (of_int \<lfloor>a + 1 / 2\<rfloor>) | _ \<Rightarrow> x)"

text \<open>A numeric literal of the source denotes the Number nearest to its decimal value.\<close>

definition lit :: "rat \<Rightarrow> jsnum" where
  "lit r = number_value r"

text \<open>Truthiness of a Number: zero and NaN are falsy.\<close>

definition truthy :: "jsnum \<Rightarrow> bool" where
  "truthy x = (x \<noteq> NaN \<and> x \<noteq> Fin 0)"

definition is_finite :: "jsnum \<Rightarrow> bool" where
  "is_finite x = (case x of Fin _ \<Rightarrow> True | _ \<Rightarrow> False)"

section \<open>The fallback pricing engine\<close>

text \<open>
  A product as the fallback receives it. A field that is missing, \<open>undefined\<close> or
  \<open>null\<close> is \<open>None\<close>. The four contextual fields are Numbers when present; values of
  other types there (strings, booleans) would be coerced by the operators and are not
  modelled.
\<close>

record product =
  product_id :: "string option"
  product_name :: "string option"
  category :: "string option"
  current_price :: "jsnum option"
  stock_level :: "jsnum option"
  demand_score :: "jsnum option"
  days_left :: "jsnum option"
  weekday :: "string option"
  season :: "string option"

text \<open>
  What one call of the engine reads from the system clock: \<open>new Date()\<close> formatted
  as a long weekday name, \<open>new Date().getMonth()\<close>, the time of \<open>new Date()\<close> and
  that of \<open>Date.now()\<close>, both in milliseconds.
\<close>

record clock =
  weekday_long :: string
  month_index :: nat
  new_date_ms :: int
  date_now_ms :: int

record price_recommendation =
  rec_product_id :: "string option"
  rec_product_name :: "string option"
  rec_category :: "string option"
  rec_current_price :: jsnum
  recommended_price :: jsnum
  price_change_percentage :: jsnum
  rec_demand_score :: jsnum
  rec_stock_level :: jsnum
  rec_days_left :: jsnum
  rec_weekday :: string
  rec_season :: string
  confidence_score :: jsnum
  recommendation_reason :: string
  model_version :: string
  created_at :: int
  valid_until :: int
  is_applied :: bool

text \<open>\<open>v || d\<close> on a field that holds a Number or nothing, and on one that holds a string.\<close>

definition or_num :: "jsnum option \<Rightarrow> jsnum \<Rightarrow> jsnum" where
  "or_num v d = (case v of None \<Rightarrow> d | Some x \<Rightarrow> (if truthy x then x else d))"

definition or_str :: "string option \<Rightarrow> string \<Rightarrow> string" where
  "or_str v d = (case v of None \<Rightarrow> d | Some s \<Rightarrow> (if s = [] then d else s))"

definition getCurrentSeason :: "clock \<Rightarrow> string" where
  "getCurrentSeason c =
     (let month = month_index c + 1
      in if 3 \<le> month \<and> month \<le> 5 then ''Spring''
         else if 6 \<le> month \<and> month \<le> 8 then ''Summer''
         else if 9 \<le> month \<and> month \<le> 11 then ''Autumn''
         else ''Winter'')"

text \<open>The three adjustments of the rule chain, each on the pair \<open>(priceMultiplier, reason)\<close>.\<close>

definition demand_adjustment :: "jsnum \<Rightarrow> jsnum \<times> string \<Rightarrow> jsnum \<times> string" where
  "demand_adjustment demandScore mr =
     (if js_gt demandScore (lit 70)
      then (js_mul (fst mr) (lit (105 / 100)), ''High demand detected - price increase recommended'')
      else if js_lt demandScore (lit 30)
      then (js_mul (fst mr) (lit (95 / 100)), ''Low demand - price reduction to boost sales'')
      else mr)"

definition stock_adjustment :: "jsnum \<Rightarrow> jsnum \<times> string \<Rightarrow> jsnum \<times> string" where
  "stock_adjustment stockLevel mr =
     (if js_lt stockLevel (lit 50)
      then (js_mul (fst mr) (lit (103 / 100)), ''Low stock levels - price increase to manage demand'')
      else if js_gt stockLevel (lit 200)
      then (js_mul (fst mr) (lit (97 / 100)), ''High inventory levels - price reduction to clear stock'')
      else mr)"

definition expiry_adjustment :: "jsnum \<Rightarrow> jsnum \<times> string \<Rightarrow> jsnum \<times> string" where
  "expiry_adjustment daysLeft mr =
     (if js_le daysLeft (lit 2)
      then (js_mul (fst mr) (lit (80 / 100)), ''Product nearing expiry - urgent price reduction'')
      else if js_le daysLeft (lit 5)
      then (js_mul (fst mr) (lit (90 / 100)), ''Product nearing expiry - price reduction to clear stock'')
      else mr)"

definition rule_chain :: "jsnum \<Rightarrow> jsnum \<Rightarrow> jsnum \<Rightarrow> jsnum \<times> string" where
  "rule_chain demandScore stockLevel daysLeft =
     expiry_adjustment daysLeft
       (stock_adjustment stockLevel
         (demand_adjustment demandScore (lit 1, ''Current price is optimal'')))"

text \<open>The callback of \<open>products.map\<close> in \<open>generateFallbackRecommendations\<close>.\<close>

definition fallback_recommendation :: "clock \<Rightarrow> product \<Rightarrow> price_recommendation" where
  "fallback_recommendation c p =
     (let currentPrice = or_num (current_price p) (lit 25);
          stockLevel = or_num (stock_level p) (lit 100);
          demandScore = or_num (demand_score p) (lit 50);
          daysLeft = or_num (days_left p) (lit 7);
          mr = rule_chain demandScore stockLevel daysLeft;
          recommendedPrice = js_mul currentPrice (fst mr);
          priceChange = js_mul (js_div (js_sub recommendedPrice currentPrice) currentPrice) (lit 100)
      in \<lparr> rec_product_id = product_id p,
           rec_product_name = product_name p,
           rec_category = category p,
           rec_current_price = currentPrice,
           recommended_price = js_div (math_round (js_mul recommendedPrice (lit 100))) (lit 100),
           price_change_percentage = js_div (math_round (js_mul priceChange (lit 100))) (lit 100),
           rec_demand_score = demandScore,
           rec_stock_level = stockLevel,
           rec_days_left = daysLeft,
           rec_weekday = or_str (weekday p) (weekday_long c),
           rec_season = or_str (season p) (getCurrentSeason c),
           confidence_score = lit (75 / 100),
           recommendation_reason = snd mr,
           model_version = ''fallback-1.0'',
           created_at = new_date_ms c,
           valid_until = date_now_ms c + 24 * 60 * 60 * 1000,
           is_applied = False \<rparr>)"

text \<open>
  The prices for which the arithmetic of the engine stays in range: a missing or falsy
  price (the default 25 is used) or a finite one of magnitude at most \<open>2^1000\<close>.
\<close>

definition price_within_range :: "product \<Rightarrow> bool" where
  "price_within_range p =
     (case current_price p of
        None \<Rightarrow> True
      | Some (Fin x) \<Rightarrow> \<bar>x\<bar> \<le> 2 ^ 1000
      | Some NaN \<Rightarrow> True
      | Some _ \<Rightarrow> False)"

section \<open>The request pipeline\<close>

subsection \<open>Requests, responses and the predictor's output\<close>

text \<open>
  The \<open>products\<close> field of a request body: missing (\<open>undefined\<close> or \<open>null\<close>), a
  value that is not an array, or an array. The items of the array are what the caller
  sent; the routes hand them to the product mapping service unseen.
\<close>

datatype 'i products_field = Absent | NotArray | Array "'i list"

text \<open>
  \<open>productMappingService.mapProductInputs\<close> is a service the routes call: here it
  is a parameter of the routes, a function from the items to the outcome of awaiting
  it. The demand route races it against a timer of five seconds.
\<close>

datatype mapping_outcome = MapThrows string | Mapped "product list"

datatype race_outcome = RaceTimeout | Settled mapping_outcome

text \<open>
  The last line of the predictor's output once parsed. \<open>JSON.parse\<close> is a parameter
  of the handlers (a function from the line to \<open>None\<close> when it throws, or to the value).
  Of an object the handlers read the truthiness of \<open>success\<close>, the items
  (\<open>recommendations\<close> or \<open>predictions\<close>, empty unless a non-empty array), the total
  and the error text.
\<close>

record prediction =
  pred_success :: bool
  pred_items :: "string list"
  pred_total :: "string option"
  pred_error :: "string option"

datatype json = JNull | JPrimitive | JObject prediction

datatype message =
    NoMessage
  | ErrorMessage string
  | GeneratedFallback nat
  | GeneratedPricing "string option"
  | GeneratedDemand "string option"
  | TimeLimit nat
  | ExitedWithCode "int option" string
  | PredictionError "string option"

datatype body_data = NoData | Recommendations "price_recommendation list" | Payload prediction

record response =
  res_status :: nat
  res_success :: bool
  res_error :: "string option"
  res_message :: message
  res_note :: "string option"
  res_data :: body_data

definition failure :: "nat \<Rightarrow> string \<Rightarrow> message \<Rightarrow> response" where
  "failure code err msg =
     \<lparr> res_status = code, res_success = False, res_error = Some err, res_message = msg,
       res_note = None, res_data = NoData \<rparr>"

subsection \<open>One invocation of the predictor\<close>

text \<open>
  The state one request owns: the flag and the timer of the route, what Express knows of
  the response (\<open>headersSent\<close>, and the responses written), the output collected from
  the process, the \<open>insertMany\<close> calls that are awaited together with the code that
  runs once they settle, the batches the store accepted, and the number of exceptions
  that left a handler uncaught.
\<close>

datatype batch =
    FallbackBatch "price_recommendation list"
  | ModelBatch "string list"
  | ForecastBatch "string list"

datatype task = FallbackRespond "price_recommendation list" | SuccessRespond prediction

record invocation =
  spawned :: bool
  enrichedProducts :: "product list"
  responseTimeout :: bool
  timer_armed :: bool
  killed :: bool
  headersSent :: bool
  sent :: "response list"
  outputData :: string
  errorData :: string
  pending :: "(batch \<times> task) list"
  persisted :: "batch list"
  unhandled :: nat

definition idle :: invocation where
  "idle = \<lparr> spawned = False, enrichedProducts = [], responseTimeout = False,
            timer_armed = False, killed = False, headersSent = False, sent = [],
            outputData = [], errorData = [], pending = [], persisted = [], unhandled = 0 \<rparr>"

text \<open>
  What the event loop delivers to one invocation: output of the process, the deadline
  timer, the process events \<open>close\<close> (with the exit code, \<open>null\<close> after a signal) and
  \<open>error\<close>, and the settling of an awaited \<open>insertMany\<close> (which one, and whether the
  store accepted it).
\<close>

datatype event =
    Stdout string
  | Stderr string
  | TimerFires
  | Close "int option"
  | ProcError string
  | InsertSettles nat bool

text \<open>\<open>res.json\<close>: Express throws once the headers are sent (\<open>None\<close>).\<close>

definition send :: "response \<Rightarrow> invocation \<Rightarrow> invocation option" where
  "send r s = (if headersSent s then None
               else Some (s\<lparr>headersSent := True, sent := sent s @ [r]\<rparr>))"

text \<open>A response at a place where nothing catches: an exception leaves the handler.\<close>

definition respond :: "response \<Rightarrow> invocation \<Rightarrow> invocation" where
  "respond r s = (case send r s of Some s' \<Rightarrow> s' | None \<Rightarrow> s\<lparr>unhandled := unhandled s + 1\<rparr>)"

definition await_insert :: "batch \<Rightarrow> task \<Rightarrow> invocation \<Rightarrow> invocation" where
  "await_insert b t s = s\<lparr>pending := pending s @ [(b, t)]\<rparr>"

text \<open>\<open>outputData.trim().split('\n')\<close> and its last element.\<close>

definition is_space :: "char \<Rightarrow> bool" where
  "is_space ch = (ch \<in> {CHR '' '', CHR 0x09, CHR 0x0A, CHR 0x0B, CHR 0x0C, CHR 0x0D})"

definition trim :: "string \<Rightarrow> string" where
  "trim s = rev (dropWhile is_space (rev (dropWhile is_space s)))"

definition last_line :: "string \<Rightarrow> string" where
  "last_line out = rev (takeWhile (\<lambda>ch. ch \<noteq> CHR 0x0A) (rev (trim out)))"

subsection \<open>The pricing route\<close>

definition fallback_response :: "price_recommendation list \<Rightarrow> response" where
  "fallback_response recommendations =
     \<lparr> res_status = 200, res_success = True, res_error = None,
       res_message = GeneratedFallback (length recommendations),
       res_note = Some ''Generated using fallback pricing algorithm'',
       res_data = Recommendations recommendations \<rparr>"

definition pricing_success_response :: "prediction \<Rightarrow> response" where
  "pricing_success_response p =
     \<lparr> res_status = 200, res_success = True, res_error = None,
       res_message = GeneratedPricing (pred_total p), res_note = None, res_data = Payload p \<rparr>"

text \<open>
  \<open>generateFallbackRecommendations\<close> is an async function: it computes the
  recommendations, calls \<open>insertMany\<close> and awaits it. What follows the await runs when
  the insert settles, whether the store accepted it or not: the response, and in the
  \<open>catch\<close> a second response, whose exception nothing catches.
\<close>

definition generateFallbackRecommendations :: "clock \<Rightarrow> product list \<Rightarrow> invocation \<Rightarrow> invocation" where
  "generateFallbackRecommendations c products s =
     (let recommendations = map (fallback_recommendation c) products
      in await_insert (FallbackBatch recommendations) (FallbackRespond recommendations) s)"

definition fallback_respond :: "price_recommendation list \<Rightarrow> invocation \<Rightarrow> invocation" where
  "fallback_respond recommendations s =
     (case send (fallback_response recommendations) s of
        Some s' \<Rightarrow> s'
      | None \<Rightarrow> respond (failure 500 ''Failed to generate fallback recommendations'' (ErrorMessage ''headers sent'')) s)"

text \<open>The callback of \<open>setTimeout\<close>.\<close>

definition pricing_on_timeout :: "clock \<Rightarrow> invocation \<Rightarrow> invocation" where
  "pricing_on_timeout c s =
     (let s1 = s\<lparr>responseTimeout := True, timer_armed := False, killed := True\<rparr>
      in if headersSent s1 then s1
         else generateFallbackRecommendations c (enrichedProducts s1) s1)"

text \<open>The end of the \<open>close\<close> handler, after the insert of the model's recommendations.\<close>

definition pricing_success_respond :: "clock \<Rightarrow> prediction \<Rightarrow> invocation \<Rightarrow> invocation" where
  "pricing_success_respond c p s =
     (case send (pricing_success_response p) s of
        Some s' \<Rightarrow> s'
      | None \<Rightarrow> generateFallbackRecommendations c (enrichedProducts s) s)"

definition pricing_on_close ::
  "(string \<Rightarrow> json option) \<Rightarrow> clock \<Rightarrow> int option \<Rightarrow> invocation \<Rightarrow> invocation" where
  "pricing_on_close parse c code s =
     (let s1 = s\<lparr>timer_armed := False\<rparr>
      in if responseTimeout s1 \<or> headersSent s1 then s1
         else if code \<noteq> Some 0 then generateFallbackRecommendations c (enrichedProducts s1) s1
         else (case parse (last_line (outputData s1)) of
                 None \<Rightarrow> generateFallbackRecommendations c (enrichedProducts s1) s1
               | Some JNull \<Rightarrow> generateFallbackRecommendations c (enrichedProducts s1) s1
               | Some JPrimitive \<Rightarrow> generateFallbackRecommendations c (enrichedProducts s1) s1
               | Some (JObject p) \<Rightarrow>
                   if pred_success p
                   then (if pred_items p = [] then pricing_success_respond c p s1
                         else await_insert (ModelBatch (pred_items p)) (SuccessRespond p) s1)
                   else generateFallbackRecommendations c (enrichedProducts s1) s1))"

definition pricing_on_error :: "clock \<Rightarrow> invocation \<Rightarrow> invocation" where
  "pricing_on_error c s =
     (let s1 = s\<lparr>timer_armed := False\<rparr>
      in if responseTimeout s1 \<or> headersSent s1 then s1
         else generateFallbackRecommendations c (enrichedProducts s1) s1)"

text \<open>An awaited insert settles: the batch is stored if accepted, and the code after the await runs.\<close>

definition take_pending :: "nat \<Rightarrow> bool \<Rightarrow> invocation \<Rightarrow> (task \<times> invocation) option" where
  "take_pending i ok s =
     (if i < length (pending s)
      then Some (snd (pending s ! i),
                 s\<lparr>pending := take i (pending s) @ drop (Suc i) (pending s),
                   persisted := (if ok then persisted s @ [fst (pending s ! i)] else persisted s)\<rparr>)
      else None)"

definition pricing_settle :: "clock \<Rightarrow> nat \<Rightarrow> bool \<Rightarrow> invocation \<Rightarrow> invocation" where
  "pricing_settle c i ok s =
     (case take_pending i ok s of
        None \<Rightarrow> s
      | Some (FallbackRespond recommendations, s1) \<Rightarrow> fallback_respond recommendations s1
      | Some (SuccessRespond p, s1) \<Rightarrow> pricing_success_respond c p s1)"

definition pricing_step ::
  "(string \<Rightarrow> json option) \<Rightarrow> clock \<Rightarrow> event \<Rightarrow> invocation \<Rightarrow> invocation" where
  "pricing_step parse c ev s =
     (case ev of
        Stdout chunk \<Rightarrow> s\<lparr>outputData := outputData s @ chunk\<rparr>
      | Stderr chunk \<Rightarrow> s\<lparr>errorData := errorData s @ chunk\<rparr>
      | TimerFires \<Rightarrow> (if timer_armed s then pricing_on_timeout c s else s)
      | Close code \<Rightarrow> pricing_on_close parse c code s
      | ProcError e \<Rightarrow> pricing_on_error c s
      | InsertSettles i ok \<Rightarrow> pricing_settle c i ok s)"

text \<open>The products with the date context the route adds before it calls the predictor.\<close>

definition enrich :: "clock \<Rightarrow> product \<Rightarrow> product" where
  "enrich c p = p\<lparr> weekday := Some (or_str (weekday p) (weekday_long c)),
                   season := Some (or_str (season p) (getCurrentSeason c)) \<rparr>"

text \<open>
  \<open>router.post('/recommend')\<close> up to the point where the handlers are registered. The
  last argument says whether starting the process throws (the inner \<open>catch\<close>).
\<close>

definition post_recommend ::
  "clock \<Rightarrow> 'i products_field \<Rightarrow> ('i list \<Rightarrow> mapping_outcome) \<Rightarrow> bool \<Rightarrow> invocation" where
  "post_recommend c products mapProductInputs spawn_throws =
     (case products of
        Absent \<Rightarrow> respond (failure 400 ''Products array is required'' NoMessage) idle
      | NotArray \<Rightarrow> respond (failure 400 ''Products array is required'' NoMessage) idle
      | Array items \<Rightarrow>
          if items = [] then respond (failure 400 ''Products array is required'' NoMessage) idle
          else (case mapProductInputs items of
                  MapThrows m \<Rightarrow>
                    respond (failure 500 ''Failed to generate price recommendations'' (ErrorMessage m)) idle
                | Mapped mappedProducts \<Rightarrow>
                    if mappedProducts = []
                    then respond (failure 400 ''No valid products found after mapping'' NoMessage) idle
                    else (let s = idle\<lparr>enrichedProducts := map (enrich c) mappedProducts\<rparr>
                          in if spawn_throws
                             then generateFallbackRecommendations c (enrichedProducts s) s
                             else s\<lparr>spawned := True, timer_armed := True\<rparr>)))"

subsection \<open>The demand forecasting route\<close>

definition demand_success_response :: "prediction \<Rightarrow> response" where
  "demand_success_response p =
     \<lparr> res_status = 200, res_success = True, res_error = None,
       res_message = GeneratedDemand (pred_total p), res_note = None, res_data = Payload p \<rparr>"

definition demand_on_timeout :: "invocation \<Rightarrow> invocation" where
  "demand_on_timeout s =
     (let s1 = s\<lparr>responseTimeout := True, timer_armed := False, killed := True\<rparr>
      in if headersSent s1 then s1
         else respond (failure 500 ''Model prediction timeout'' (TimeLimit 60000)) s1)"

definition demand_success_respond :: "prediction \<Rightarrow> invocation \<Rightarrow> invocation" where
  "demand_success_respond p s =
     (case send (demand_success_response p) s of
        Some s' \<Rightarrow> s'
      | None \<Rightarrow> respond (failure 500 ''Failed to parse model response'' (ErrorMessage ''headers sent'')) s)"

definition demand_on_close ::
  "(string \<Rightarrow> json option) \<Rightarrow> int option \<Rightarrow> invocation \<Rightarrow> invocation" where
  "demand_on_close parse code s =
     (let s1 = s\<lparr>timer_armed := False\<rparr>
      in if responseTimeout s1 \<or> headersSent s1 then s1
         else if code \<noteq> Some 0
         then respond (failure 500 ''Model prediction failed'' (ExitedWithCode code (errorData s1))) s1
         else (case parse (last_line (outputData s1)) of
                 None \<Rightarrow> respond (failure 500 ''Failed to parse model response'' (ErrorMessage ''parse error'')) s1
               | Some JNull \<Rightarrow> respond (failure 500 ''Failed to parse model response'' (ErrorMessage ''type error'')) s1
               | Some JPrimitive \<Rightarrow> respond (failure 500 ''Model prediction failed'' (PredictionError None)) s1
               | Some (JObject p) \<Rightarrow>
                   if pred_success p
                   then (if pred_items p = [] then demand_success_respond p s1
                         else await_insert (ForecastBatch (pred_items p)) (SuccessRespond p) s1)
                   else respond (failure 500 ''Model prediction failed'' (PredictionError (pred_error p))) s1))"

definition demand_on_error :: "string \<Rightarrow> invocation \<Rightarrow> invocation" where
  "demand_on_error e s =
     (let s1 = s\<lparr>timer_armed := False\<rparr>
      in if responseTimeout s1 \<or> headersSent s1 then s1
         else respond (failure 500 ''Failed to start Python process'' (ErrorMessage e)) s1)"

definition demand_settle :: "nat \<Rightarrow> bool \<Rightarrow> invocation \<Rightarrow> invocation" where
  "demand_settle i ok s =
     (case take_pending i ok s of
        None \<Rightarrow> s
      | Some (FallbackRespond recommendations, s1) \<Rightarrow> s1
      | Some (SuccessRespond p, s1) \<Rightarrow> demand_success_respond p s1)"

definition demand_step :: "(string \<Rightarrow> json option) \<Rightarrow> event \<Rightarrow> invocation \<Rightarrow> invocation" where
  "demand_step parse ev s =
     (case ev of
        Stdout chunk \<Rightarrow> s\<lparr>outputData := outputData s @ chunk\<rparr>
      | Stderr chunk \<Rightarrow> s\<lparr>errorData := errorData s @ chunk\<rparr>
      | TimerFires \<Rightarrow> (if timer_armed s then demand_on_timeout s else s)
      | Close code \<Rightarrow> demand_on_close parse code s
      | ProcError e \<Rightarrow> demand_on_error e s
      | InsertSettles i ok \<Rightarrow> demand_settle i ok s)"

text \<open>\<open>router.post('/predict')\<close> up to the point where the handlers are registered.\<close>

definition post_predict ::
  "'i products_field \<Rightarrow> ('i list \<Rightarrow> race_outcome) \<Rightarrow> bool \<Rightarrow> invocation" where
  "post_predict products mapProductInputs spawn_throws =
     (case products of
        Absent \<Rightarrow> respond (failure 400 ''Products array is required'' NoMessage) idle
      | NotArray \<Rightarrow> respond (failure 400 ''Products array is required'' NoMessage) idle
      | Array items \<Rightarrow>
          if items = [] then respond (failure 400 ''Products array is required'' NoMessage) idle
          else (case mapProductInputs items of
                  RaceTimeout \<Rightarrow>
                    respond (failure 400 ''Product mapping failed'' (ErrorMessage ''Product mapping timeout'')) idle
                | Settled (MapThrows m) \<Rightarrow>
                    respond (failure 400 ''Product mapping failed'' (ErrorMessage m)) idle
                | Settled (Mapped mappedProducts) \<Rightarrow>
                    if mappedProducts = []
                    then respond (failure 400 ''No valid products found after mapping'' NoMessage) idle
                    else (let s = idle\<lparr>enrichedProducts := mappedProducts\<rparr>
                          in if spawn_throws
                             then respond (failure 500 ''Failed to execute Python script'' (ErrorMessage ''spawn'')) s
                             else s\<lparr>spawned := True, timer_armed := True\<rparr>)))"

subsection \<open>Runs and outcomes\<close>

fun run :: "(event \<Rightarrow> invocation \<Rightarrow> invocation) \<Rightarrow> event list \<Rightarrow> invocation \<Rightarrow> invocation" where
  "run step [] s = s"
| "run step (ev # evs) s = run step evs (step ev s)"



text \<open>The events that come from the process or the timer, as opposed to the store.\<close>

definition process_event :: "event \<Rightarrow> bool" where
  "process_event ev = (case ev of InsertSettles i ok \<Rightarrow> False | _ \<Rightarrow> True)"


section \<open>Properties of the number model\<close>

lemma pow2_powi: "pow2 k = 2 powi k"
  by (simp add: pow2_def power_int_def field_simps)

lemma pow2_pos [simp]: "0 < pow2 k"
  by (simp add: pow2_powi zero_less_power_int)

lemma pow2_add: "pow2 (a + b) = pow2 a * pow2 b"
  by (simp add: pow2_powi power_int_add)

lemma pow2_mono: "a \<le> b \<Longrightarrow> pow2 a \<le> pow2 b"
  by (simp add: pow2_powi power_int_increasing)

lemma pow2_nat: "0 \<le> k \<Longrightarrow> pow2 k = 2 ^ nat k"
  by (simp add: pow2_def)

lemma blen_nonneg: "0 \<le> blen n"
  by (induction n rule: blen.induct) (subst blen.simps, simp)

lemma blen_pos: "0 < n \<Longrightarrow> 0 < blen n"
  using blen_nonneg [of "n div 2"] by (subst blen.simps) simp

lemma blen_bounds: "0 < n \<Longrightarrow> 2 ^ nat (blen n - 1) \<le> n \<and> n < 2 ^ nat (blen n)"
proof (induction n rule: blen.induct)
  case (1 n)
  show ?case
  proof (cases "n = 1")
    case True
    then show ?thesis by (simp add: blen.simps [of 1] blen.simps [of 0])
  next
    case False
    with "1.prems" have h: "0 < n div 2" by simp
    from "1.IH" "1.prems" h
    have ih: "2 ^ nat (blen (n div 2) - 1) \<le> n div 2" "n div 2 < 2 ^ nat (blen (n div 2))"
      by simp_all
    have b: "blen n = 1 + blen (n div 2)"
      using "1.prems" by (subst blen.simps) simp
    have p: "0 < blen (n div 2)" using h by (rule blen_pos)
    have e1: "nat (blen n - 1) = Suc (nat (blen (n div 2) - 1))"
      using p b by simp
    have e2: "nat (blen n) = Suc (nat (blen (n div 2)))"
      using p b by simp
    have "\<And>A::int. A \<le> n div 2 \<Longrightarrow> 2 * A \<le> n" by presburger
    moreover have "\<And>B::int. n div 2 < B \<Longrightarrow> n < 2 * B" by presburger
    ultimately show ?thesis
      unfolding e1 e2 using ih by simp
  qed
qed

lemma ilog2_lower: "0 < a \<Longrightarrow> pow2 (ilog2 a) \<le> a"
proof (cases "1 \<le> a")
  case True
  then have n: "0 < \<lfloor>a\<rfloor>" by simp
  have k: "0 \<le> blen \<lfloor>a\<rfloor> - 1" using blen_pos [OF n] by simp
  have "pow2 (ilog2 a) = 2 ^ nat (blen \<lfloor>a\<rfloor> - 1)"
    using True k by (simp add: ilog2_def pow2_nat)
  also have "\<dots> = of_int (2 ^ nat (blen \<lfloor>a\<rfloor> - 1))" by simp
  also have "\<dots> \<le> of_int \<lfloor>a\<rfloor>"
    using blen_bounds [OF n] by (simp only: of_int_le_iff)
  also have "\<dots> \<le> a" by simp
  finally show ?thesis .
next
  case False
  assume pos: "0 < a"
  let ?b = "1 / a"
  let ?n = "\<lceil>?b\<rceil> - 1"
  from False pos have b1: "1 < ?b" by (simp add: field_simps)
  then have n: "0 < ?n" by (simp add: less_ceiling_iff)
  let ?k = "blen ?n"
  have kpos: "0 < ?k" using n by (rule blen_pos)
  have "?n < 2 ^ nat ?k" using blen_bounds [OF n] by simp
  then have "\<lceil>?b\<rceil> \<le> 2 ^ nat ?k" by simp
  then have "?b \<le> of_int (2 ^ nat ?k)" by (simp only: ceiling_le_iff)
  then have "?b \<le> 2 ^ nat ?k" by simp
  then have "1 / 2 ^ nat ?k \<le> a" using pos by (simp add: field_simps)
  moreover have "pow2 (ilog2 a) = 1 / 2 ^ nat ?k"
    using False kpos by (simp add: ilog2_def pow2_def)
  ultimately show ?thesis by simp
qed

lemma ilog2_upper: "0 < a \<Longrightarrow> a < pow2 (ilog2 a + 1)"
proof (cases "1 \<le> a")
  case True
  then have n: "0 < \<lfloor>a\<rfloor>" by simp
  have k: "0 < blen \<lfloor>a\<rfloor>" using blen_pos [OF n] by simp
  have "\<lfloor>a\<rfloor> + 1 \<le> 2 ^ nat (blen \<lfloor>a\<rfloor>)" using blen_bounds [OF n] by simp
  then have "of_int (\<lfloor>a\<rfloor> + 1) \<le> (of_int (2 ^ nat (blen \<lfloor>a\<rfloor>)) :: rat)"
    by (simp only: of_int_le_iff)
  moreover have "a < of_int (\<lfloor>a\<rfloor> + 1)" by linarith
  ultimately have "a < 2 ^ nat (blen \<lfloor>a\<rfloor>)" by simp
  moreover have "pow2 (ilog2 a + 1) = 2 ^ nat (blen \<lfloor>a\<rfloor>)"
    using True k by (simp add: ilog2_def pow2_nat)
  ultimately show ?thesis by simp
next
  case False
  assume pos: "0 < a"
  let ?b = "1 / a"
  let ?n = "\<lceil>?b\<rceil> - 1"
  from False pos have b1: "1 < ?b" by (simp add: field_simps)
  then have n: "0 < ?n" by (simp add: less_ceiling_iff)
  let ?k = "blen ?n"
  have kpos: "0 < ?k" using n by (rule blen_pos)
  have "2 ^ nat (?k - 1) \<le> ?n" using blen_bounds [OF n] by simp
  then have "2 ^ nat (?k - 1) < \<lceil>?b\<rceil>" by simp
  then have "of_int (2 ^ nat (?k - 1)) < ?b" by (simp only: less_ceiling_iff)
  then have "2 ^ nat (?k - 1) < ?b" by simp
  then have "a < 1 / 2 ^ nat (?k - 1)" using pos by (simp add: field_simps)
  moreover have "pow2 (ilog2 a + 1) = 1 / 2 ^ nat (?k - 1)"
    using False kpos by (auto simp add: ilog2_def pow2_def)
  ultimately show ?thesis by simp
qed

lemma round_half_even_upper: "of_int (round_half_even y) \<le> y + 1 / 2"
  unfolding round_half_even_def Let_def by (auto; linarith)

lemma round_half_even_lower: "y - 1 / 2 \<le> of_int (round_half_even y)"
  unfolding round_half_even_def Let_def by (auto; linarith)

lemma round_half_even_ge_int: "of_int N \<le> y \<Longrightarrow> N \<le> round_half_even y"
  unfolding round_half_even_def Let_def by (auto simp: le_floor_iff; linarith)

lemma round_half_even_le_double: "0 \<le> y \<Longrightarrow> of_int (round_half_even y) \<le> 2 * y"
proof (cases "y < 1 / 2")
  case True
  assume "0 \<le> y"
  with True have "\<lfloor>y\<rfloor> = 0" by (simp add: floor_eq_iff)
  with True show ?thesis using \<open>0 \<le> y\<close> by (simp add: round_half_even_def Let_def)
next
  case False
  then show ?thesis using round_half_even_upper [of y] by simp
qed

lemma round_half_even_nonneg: "0 \<le> y \<Longrightarrow> 0 \<le> round_half_even y"
  using round_half_even_ge_int [of 0 y] by simp

lemma pow2_nonneg [simp]: "0 \<le> pow2 k"
  using pow2_pos [of k] by (simp only: less_imp_le)

lemma pow2_nz [simp]: "pow2 k \<noteq> 0"
  using pow2_pos [of k] by linarith

lemma pow2_diff: "pow2 a / pow2 b = pow2 (a - b)"
  using pow2_add [of "a - b" b] by (simp add: field_simps)

lemma pow2_ge_1: "0 \<le> k \<Longrightarrow> 1 \<le> pow2 k"
  using pow2_mono [of 0 k] by (simp add: pow2_def)

lemma pow2_double: "2 * pow2 k = pow2 (k + 1)"
  using pow2_add [of k 1] by (simp add: pow2_def [of 1])

lemma rounded_ge_pow2:
  assumes a: "pow2 K \<le> a" and K: "- 1074 \<le> K"
  defines "e \<equiv> max (ilog2 a - 52) (- 1074)"
  shows "pow2 K \<le> of_int (round_half_even (a / pow2 e)) * pow2 e"
proof (cases "e \<le> K")
  case True
  have "pow2 (K - e) \<le> a / pow2 e"
    using a by (simp add: pow2_diff [symmetric] divide_right_mono)
  moreover have "pow2 (K - e) = of_int (2 ^ nat (K - e))"
    using True by (simp add: pow2_nat)
  ultimately have "2 ^ nat (K - e) \<le> round_half_even (a / pow2 e)"
    by (simp only: round_half_even_ge_int)
  then have "(of_int (2 ^ nat (K - e)) :: rat) \<le> of_int (round_half_even (a / pow2 e))"
    by (simp only: of_int_le_iff)
  then have "pow2 (K - e) \<le> of_int (round_half_even (a / pow2 e))"
    using True by (simp add: pow2_nat)
  then have "pow2 (K - e) * pow2 e \<le> of_int (round_half_even (a / pow2 e)) * pow2 e"
    by (simp add: mult_right_mono)
  then show ?thesis by (simp add: pow2_add [symmetric])
next
  case False
  with K have e: "e = ilog2 a - 52" by (simp add: e_def max_def split: if_splits)
  have apos: "0 < a" using a pow2_pos [of K] by linarith
  have "pow2 (e + 52) \<le> a" using ilog2_lower [OF apos] e by simp
  then have "pow2 52 \<le> a / pow2 e"
    by (simp add: pow2_add field_simps)
  then have "1 \<le> a / pow2 e" using pow2_ge_1 [of 52] by linarith
  then have "of_int 1 \<le> a / pow2 e" by (simp only: of_int_1)
  then have "1 \<le> round_half_even (a / pow2 e)" by (rule round_half_even_ge_int)
  then have "(1::rat) \<le> of_int (round_half_even (a / pow2 e))" by simp
  then have "pow2 e \<le> of_int (round_half_even (a / pow2 e)) * pow2 e"
    by simp
  moreover have "pow2 K \<le> pow2 e" using False by (simp add: pow2_mono)
  ultimately show ?thesis by linarith
qed

lemma number_value_ge:
  assumes "pow2 K \<le> x" and "- 1074 \<le> K"
  shows "number_value x = PInf \<or> (\<exists>v. number_value x = Fin v \<and> pow2 K \<le> v)"
proof -
  have pos: "0 < x" using assms(1) pow2_pos [of K] by linarith
  then have ax: "\<bar>x\<bar> = x" by simp
  show ?thesis
    using rounded_ge_pow2 [OF assms] pos
    by (simp add: number_value_def Let_def ax)
qed

lemma number_value_overflow:
  assumes "pow2 1024 \<le> x"
  shows "number_value x = PInf"
proof -
  have pos: "0 < x" using assms pow2_pos [of 1024] by linarith
  then have ax: "\<bar>x\<bar> = x" by simp
  show ?thesis
    using rounded_ge_pow2 [OF assms] pos
    by (simp add: number_value_def Let_def ax)
qed

lemma number_value_alt:
  "x \<noteq> 0 \<Longrightarrow> e = max (ilog2 \<bar>x\<bar> - 52) (- 1074) \<Longrightarrow>
   v = of_int (round_half_even (\<bar>x\<bar> / pow2 e)) * pow2 e \<Longrightarrow>
   number_value x = (if pow2 1024 \<le> v then (if 0 < x then PInf else NInf)
                     else Fin (if 0 < x then v else - v))"
  by (simp add: number_value_def Let_def)

lemma number_value_finite:
  assumes "\<bar>x\<bar> < pow2 1023"
  shows "\<exists>v. number_value x = Fin v \<and> \<bar>v\<bar> \<le> 2 * \<bar>x\<bar>"
proof (cases "x = 0")
  case True
  then show ?thesis by (simp add: number_value_def)
next
  case False
  define e where "e = max (ilog2 \<bar>x\<bar> - 52) (- 1074)"
  define v where "v = of_int (round_half_even (\<bar>x\<bar> / pow2 e)) * pow2 e"
  have y: "0 \<le> \<bar>x\<bar> / pow2 e" by (simp add: less_imp_le)
  have "of_int (round_half_even (\<bar>x\<bar> / pow2 e)) \<le> 2 * (\<bar>x\<bar> / pow2 e)"
    using y by (rule round_half_even_le_double)
  then have "v \<le> 2 * (\<bar>x\<bar> / pow2 e) * pow2 e"
    unfolding v_def by (simp only: mult_right_mono pow2_pos less_imp_le)
  then have vle: "v \<le> 2 * \<bar>x\<bar>" by simp
  have v0: "0 \<le> v"
    unfolding v_def using round_half_even_nonneg [OF y] by (simp add: less_imp_le)
  have "v < pow2 1024"
    using vle assms pow2_double [of 1023] by simp
  then have "number_value x = Fin (if 0 < x then v else - v)"
    using number_value_alt [OF False e_def v_def] by simp
  moreover have "\<bar>if 0 < x then v else - v\<bar> \<le> 2 * \<bar>x\<bar>"
    using vle v0 by (cases "0 < x") simp_all
  ultimately show ?thesis by blast
qed

lemma blen_num: "blen (numeral n) = 1 + blen (numeral n div 2)" "blen 0 = 0" "blen 1 = 1"
    apply (subst blen.simps) apply simp
   apply (subst blen.simps) apply simp
   apply (subst blen.simps) apply simp
   apply (subst blen.simps) apply simp
  done

lemma floor_rat_numeral_div:
  "\<lfloor>numeral a / numeral b :: rat\<rfloor> = numeral a div numeral b"
  using floor_divide_of_int_eq [of "numeral a" "numeral b", where ?'a = rat] by simp

lemma floor_rat_minus_numeral_div:
  "\<lfloor>- (numeral a / numeral b) :: rat\<rfloor> = - numeral a div numeral b"
  using floor_divide_of_int_eq [of "- numeral a" "numeral b", where ?'a = rat] by simp

lemma ceiling_rat_numeral_div:
  "\<lceil>numeral a / numeral b :: rat\<rceil> = - (- numeral a div numeral b)"
  by (simp add: ceiling_def floor_rat_minus_numeral_div)

lemmas num_eval = number_value_def ilog2_def pow2_def round_half_even_def blen_num Let_def
  floor_rat_numeral_div floor_rat_minus_numeral_div ceiling_rat_numeral_div

lemma js_mul_Fin: "js_mul (Fin a) (Fin b) = number_value (a * b)"
  by (simp add: js_mul_def)

lemma js_sub_Fin: "js_sub (Fin a) (Fin b) = number_value (a - b)"
  by (simp add: js_sub_def)

lemma js_div_Fin: "b \<noteq> 0 \<Longrightarrow> js_div (Fin a) (Fin b) = number_value (a / b)"
  by (simp add: js_div_def)

lemma js_cmp_Fin:
  "js_lt (Fin a) (Fin b) = (a < b)" "js_gt (Fin a) (Fin b) = (b < a)" "js_le (Fin a) (Fin b) = (a \<le> b)"
  by (auto simp add: js_lt_def js_gt_def js_le_def)

lemma math_round_Fin: "math_round (Fin a) = Fin (of_int \<lfloor>a + 1 / 2\<rfloor>)"
  by (simp add: math_round_def)

lemmas js_eval = js_mul_Fin js_sub_Fin js_div_Fin js_cmp_Fin math_round_Fin lit_def num_eval

lemma lit_int_values:
  "lit 1 = Fin 1" "lit 2 = Fin 2" "lit 5 = Fin 5" "lit 7 = Fin 7" "lit 25 = Fin 25"
  "lit 30 = Fin 30" "lit 50 = Fin 50" "lit 70 = Fin 70" "lit 100 = Fin 100" "lit 200 = Fin 200"
  by (simp_all add: js_eval)

lemma chain_80_30_1:
  "rule_chain (Fin 80) (Fin 30) (Fin 1) =
     (Fin (1948257198800477 / 2251799813685248), ''Product nearing expiry - urgent price reduction'')"
  by (simp add: rule_chain_def demand_adjustment_def stock_adjustment_def expiry_adjustment_def js_eval)

section \<open>The fallback engine: rules and defaults\<close>

lemma or_num_falsy: "or_num None d = d" "or_num (Some (Fin 0)) d = d" "or_num (Some NaN) d = d"
  by (simp_all add: or_num_def truthy_def)

lemma or_num_nonzero: "x \<noteq> 0 \<Longrightarrow> or_num (Some (Fin x)) d = Fin x"
  by (simp add: or_num_def truthy_def)

lemma demand_adjustment_Fin:
  "demand_adjustment (Fin x) mr =
     (if 70 < x then (js_mul (fst mr) (lit (105 / 100)), ''High demand detected - price increase recommended'')
      else if x < 30 then (js_mul (fst mr) (lit (95 / 100)), ''Low demand - price reduction to boost sales'')
      else mr)"
  by (simp add: demand_adjustment_def lit_int_values js_cmp_Fin)

lemma stock_adjustment_Fin:
  "stock_adjustment (Fin x) mr =
     (if x < 50 then (js_mul (fst mr) (lit (103 / 100)), ''Low stock levels - price increase to manage demand'')
      else if 200 < x then (js_mul (fst mr) (lit (97 / 100)), ''High inventory levels - price reduction to clear stock'')
      else mr)"
  by (simp add: stock_adjustment_def lit_int_values js_cmp_Fin)

lemma expiry_adjustment_Fin:
  "expiry_adjustment (Fin x) mr =
     (if x \<le> 2 then (js_mul (fst mr) (lit (80 / 100)), ''Product nearing expiry - urgent price reduction'')
      else if x \<le> 5 then (js_mul (fst mr) (lit (90 / 100)), ''Product nearing expiry - price reduction to clear stock'')
      else mr)"
  by (simp add: expiry_adjustment_def lit_int_values js_cmp_Fin)

section \<open>The fallback engine: range of the outputs\<close>

lemma fin_mul:
  assumes "\<bar>a\<bar> \<le> A" "\<bar>b\<bar> \<le> B" "A * B < pow2 1023"
  shows "\<exists>m. js_mul (Fin a) (Fin b) = Fin m \<and> \<bar>m\<bar> \<le> 2 * (A * B)"
proof -
  have ab: "\<bar>a * b\<bar> \<le> A * B"
    unfolding abs_mult using assms(1,2) by (intro mult_mono) simp_all
  then have "\<bar>a * b\<bar> < pow2 1023" using assms(3) by linarith
  from number_value_finite [OF this] ab show ?thesis
    by (auto simp add: js_mul_Fin)
qed

lemma fin_sub:
  assumes "\<bar>a\<bar> \<le> A" "\<bar>b\<bar> \<le> B" "A + B < pow2 1023"
  shows "\<exists>m. js_sub (Fin a) (Fin b) = Fin m \<and> \<bar>m\<bar> \<le> 2 * (A + B)"
proof -
  have ab: "\<bar>a - b\<bar> \<le> A + B" using assms(1,2) by linarith
  then have "\<bar>a - b\<bar> < pow2 1023" using assms(3) by linarith
  from number_value_finite [OF this] ab show ?thesis
    by (auto simp add: js_sub_Fin)
qed

lemma fin_div:
  assumes "b \<noteq> 0" "\<bar>a\<bar> \<le> A * \<bar>b\<bar>" "A < pow2 1023"
  shows "\<exists>m. js_div (Fin a) (Fin b) = Fin m \<and> \<bar>m\<bar> \<le> 2 * A"
proof -
  have "\<bar>a / b\<bar> = \<bar>a\<bar> / \<bar>b\<bar>" by simp
  also have "\<dots> \<le> A" using assms(1,2) by (simp add: field_simps)
  finally have ab: "\<bar>a / b\<bar> \<le> A" .
  then have "\<bar>a / b\<bar> < pow2 1023" using assms(3) by linarith
  from number_value_finite [OF this] ab assms(1) show ?thesis
    by (auto simp add: js_div_Fin)
qed

lemma fin_round: "\<exists>k. math_round (Fin a) = Fin k \<and> \<bar>k\<bar> \<le> \<bar>a\<bar> + 1"
proof -
  have "\<bar>of_int \<lfloor>a + 1 / 2\<rfloor> :: rat\<bar> \<le> \<bar>a\<bar> + 1" by linarith
  then show ?thesis by (simp add: math_round_Fin)
qed

lemma pow2_1023_split: "pow2 1023 = 8388608 * pow2 1000"
  using pow2_add [of 23 1000] by (simp add: pow2_def [of 23])

lemma pow2_1000_ge: "32 \<le> pow2 1000"
  using pow2_mono [of 5 1000] by (simp add: pow2_def [of 5])

lemma pow2_1000_eq: "pow2 1000 = 2 ^ 1000"
  by (simp add: pow2_def)

lemma outputs_finite_core:
  assumes x0: "x \<noteq> 0" and xb: "\<bar>x\<bar> \<le> pow2 1000" and mb: "\<bar>m\<bar> \<le> 64"
  shows "is_finite (js_div (math_round (js_mul (js_mul (Fin x) (Fin m)) (lit 100))) (lit 100))"
    and "is_finite (js_div (math_round (js_mul (js_mul
            (js_div (js_sub (js_mul (Fin x) (Fin m)) (Fin x)) (Fin x)) (lit 100)) (lit 100))) (lit 100))"
proof -
  define T where "T = pow2 1000"
  define X where "X = \<bar>x\<bar>"
  have T: "32 \<le> T" "pow2 1023 = 8388608 * T" "X \<le> T" "0 \<le> X"
    unfolding T_def X_def using pow2_1000_ge pow2_1023_split xb by simp_all
  have h100: "\<bar>100 :: rat\<bar> \<le> 100" by simp
  have xX: "\<bar>x\<bar> \<le> X" by (simp add: X_def)
  have side_r: "X * 64 < pow2 1023" using T by linarith
  obtain r where r: "js_mul (Fin x) (Fin m) = Fin r" "\<bar>r\<bar> \<le> 2 * (X * 64)"
    using fin_mul [OF xX mb side_r] by blast
  have side_r2: "2 * (X * 64) * 100 < pow2 1023" using T by linarith
  obtain r2 where r2: "js_mul (Fin r) (Fin 100) = Fin r2" "\<bar>r2\<bar> \<le> 2 * (2 * (X * 64) * 100)"
    using fin_mul [OF r(2) h100 side_r2] by blast
  obtain k where k: "math_round (Fin r2) = Fin k" "\<bar>k\<bar> \<le> \<bar>r2\<bar> + 1"
    using fin_round by blast
  have "\<bar>k\<bar> \<le> (\<bar>r2\<bar> + 1) / 100 * \<bar>100\<bar>" using k(2) by simp
  moreover have "(\<bar>r2\<bar> + 1) / 100 < pow2 1023" using r2(2) T by simp
  ultimately obtain q where q: "js_div (Fin k) (Fin 100) = Fin q"
    using fin_div [of 100 k "(\<bar>r2\<bar> + 1) / 100"] by auto
  show "is_finite (js_div (math_round (js_mul (js_mul (Fin x) (Fin m)) (lit 100))) (lit 100))"
    by (simp add: r r2 k q lit_int_values is_finite_def)
  have side_d: "2 * (X * 64) + X < pow2 1023" using T by linarith
  obtain d where d: "js_sub (Fin r) (Fin x) = Fin d" "\<bar>d\<bar> \<le> 2 * (2 * (X * 64) + X)"
    using fin_sub [OF r(2) xX side_d] by blast
  have "\<bar>d\<bar> \<le> 258 * \<bar>x\<bar>" using d(2) by (simp add: X_def)
  moreover have "258 < pow2 1023" using T by simp
  ultimately obtain c where c: "js_div (Fin d) (Fin x) = Fin c" "\<bar>c\<bar> \<le> 2 * 258"
    using fin_div [OF x0, of d 258] by auto
  have side_pc: "2 * 258 * 100 < pow2 1023" using T by linarith
  obtain pc where pc: "js_mul (Fin c) (Fin 100) = Fin pc" "\<bar>pc\<bar> \<le> 2 * (2 * 258 * 100)"
    using fin_mul [OF c(2) h100 side_pc] by blast
  have side_pc2: "2 * (2 * 258 * 100) * 100 < pow2 1023" using T by linarith
  obtain pc2 where pc2: "js_mul (Fin pc) (Fin 100) = Fin pc2" "\<bar>pc2\<bar> \<le> 2 * (2 * (2 * 258 * 100) * 100)"
    using fin_mul [OF pc(2) h100 side_pc2] by blast
  obtain k2 where k2: "math_round (Fin pc2) = Fin k2" "\<bar>k2\<bar> \<le> \<bar>pc2\<bar> + 1"
    using fin_round by blast
  have "\<bar>k2\<bar> \<le> (\<bar>pc2\<bar> + 1) / 100 * \<bar>100\<bar>" using k2(2) by simp
  moreover have "(\<bar>pc2\<bar> + 1) / 100 < pow2 1023" using pc2(2) T by simp
  ultimately obtain q2 where q2: "js_div (Fin k2) (Fin 100) = Fin q2"
    using fin_div [of 100 k2 "(\<bar>pc2\<bar> + 1) / 100"] by auto
  show "is_finite (js_div (math_round (js_mul (js_mul
            (js_div (js_sub (js_mul (Fin x) (Fin m)) (Fin x)) (Fin x)) (lit 100)) (lit 100))) (lit 100))"
    by (simp add: r d c pc pc2 k2 q2 lit_int_values is_finite_def)
qed

lemma lit_frac_values:
  "lit (105 / 100) = Fin (4728779608739021 / 4503599627370496)"
  "lit (95 / 100) = Fin (4278419646001971 / 4503599627370496)"
  "lit (103 / 100) = Fin (4638707616191611 / 4503599627370496)"
  "lit (97 / 100) = Fin (4368491638549381 / 4503599627370496)"
  "lit (80 / 100) = Fin (3602879701896397 / 4503599627370496)"
  "lit (90 / 100) = Fin (8106479329266893 / 9007199254740992)"
  by (simp_all add: js_eval)

lemma lit_multipliers_small:
  "\<exists>v. lit (105 / 100) = Fin v \<and> \<bar>v\<bar> \<le> 2" "\<exists>v. lit (95 / 100) = Fin v \<and> \<bar>v\<bar> \<le> 2"
  "\<exists>v. lit (103 / 100) = Fin v \<and> \<bar>v\<bar> \<le> 2" "\<exists>v. lit (97 / 100) = Fin v \<and> \<bar>v\<bar> \<le> 2"
  "\<exists>v. lit (80 / 100) = Fin v \<and> \<bar>v\<bar> \<le> 2" "\<exists>v. lit (90 / 100) = Fin v \<and> \<bar>v\<bar> \<le> 2"
  unfolding lit_frac_values by (rule exI, rule conjI, rule refl, simp)+

lemma mul_lit_bounded:
  assumes "\<bar>a\<bar> \<le> B" "B \<le> 16" "\<exists>v. lit l = Fin v \<and> \<bar>v\<bar> \<le> 2"
  shows "\<exists>m. js_mul (Fin a) (lit l) = Fin m \<and> \<bar>m\<bar> \<le> 4 * B"
proof -
  from assms(3) obtain v where v: "lit l = Fin v" "\<bar>v\<bar> \<le> 2" by blast
  have "B * 2 < pow2 1023" using assms(2) pow2_1023_split pow2_1000_ge by linarith
  from fin_mul [OF assms(1) v(2) this] show ?thesis by (simp add: v(1))
qed

lemma demand_adjustment_bounded:
  assumes "fst mr = Fin a" "\<bar>a\<bar> \<le> B" "B \<le> 16"
  shows "\<exists>m. fst (demand_adjustment d mr) = Fin m \<and> \<bar>m\<bar> \<le> 4 * B"
  using assms mul_lit_bounded [OF assms(2,3) lit_multipliers_small(1)]
    mul_lit_bounded [OF assms(2,3) lit_multipliers_small(2)]
  by (auto simp add: demand_adjustment_def)

lemma stock_adjustment_bounded:
  assumes "fst mr = Fin a" "\<bar>a\<bar> \<le> B" "B \<le> 16"
  shows "\<exists>m. fst (stock_adjustment d mr) = Fin m \<and> \<bar>m\<bar> \<le> 4 * B"
  using assms mul_lit_bounded [OF assms(2,3) lit_multipliers_small(3)]
    mul_lit_bounded [OF assms(2,3) lit_multipliers_small(4)]
  by (auto simp add: stock_adjustment_def)

lemma expiry_adjustment_bounded:
  assumes "fst mr = Fin a" "\<bar>a\<bar> \<le> B" "B \<le> 16"
  shows "\<exists>m. fst (expiry_adjustment d mr) = Fin m \<and> \<bar>m\<bar> \<le> 4 * B"
  using assms mul_lit_bounded [OF assms(2,3) lit_multipliers_small(5)]
    mul_lit_bounded [OF assms(2,3) lit_multipliers_small(6)]
  by (auto simp add: expiry_adjustment_def)

lemma rule_chain_bounded: "\<exists>m. fst (rule_chain ds sl dl) = Fin m \<and> \<bar>m\<bar> \<le> 64"
proof -
  have "fst (lit 1, ''Current price is optimal'') = Fin 1" by (simp add: lit_int_values)
  from demand_adjustment_bounded [OF this, of 1 ds]
  obtain m1 where m1: "fst (demand_adjustment ds (lit 1, ''Current price is optimal'')) = Fin m1"
    "\<bar>m1\<bar> \<le> 4" by auto
  from stock_adjustment_bounded [OF m1, of sl]
  obtain m2 where m2: "fst (stock_adjustment sl (demand_adjustment ds (lit 1, ''Current price is optimal''))) = Fin m2"
    "\<bar>m2\<bar> \<le> 16" by auto
  from expiry_adjustment_bounded [OF m2, of dl]
  show ?thesis by (auto simp add: rule_chain_def)
qed

lemma or_num_price_cases:
  assumes "price_within_range p"
  shows "\<exists>x. or_num (current_price p) (lit 25) = Fin x \<and> x \<noteq> 0 \<and> \<bar>x\<bar> \<le> pow2 1000"
proof (cases "current_price p")
  case None
  then show ?thesis using pow2_1000_ge by (simp add: or_num_def lit_int_values)
next
  case (Some v)
  show ?thesis
  proof (cases "truthy v")
    case False
    then show ?thesis using Some pow2_1000_ge by (simp add: or_num_def lit_int_values)
  next
    case True
    then show ?thesis using Some assms
      by (cases v) (simp_all add: or_num_def truthy_def price_within_range_def pow2_1000_eq)
  qed
qed

text \<open>
  C4. For the product \<open>{current_price: 40, stock_level: 30, demand_score: 80, days_left: 1}\<close>
  the high-demand, low-stock and urgent near-expiry rules all fire: the multiplier is the
  product 1.05 * 1.03 * 0.80 taken in binary64 arithmetic (within \<open>10^-15\<close> of 0.8652), the
  recommended price is the Number 34.61, the reason is that of the last rule that fired
  (urgent near-expiry), and the confidence score is 0.75.
\<close>

theorem fallback_near_expiry_scenario:
  "rule_chain (Fin 80) (Fin 30) (Fin 1)
     = (js_mul (js_mul (js_mul (lit 1) (lit (105 / 100))) (lit (103 / 100))) (lit (80 / 100)),
        ''Product nearing expiry - urgent price reduction'')
   \<and> fst (rule_chain (Fin 80) (Fin 30) (Fin 1)) = Fin (1948257198800477 / 2251799813685248)
   \<and> \<bar>1948257198800477 / 2251799813685248 - 8652 / 10000\<bar> < (1 / 10 ^ 15 :: rat)
   \<and> fallback_recommendation c
         \<lparr> product_id = None, product_name = None, category = None,
           current_price = Some (Fin 40), stock_level = Some (Fin 30),
           demand_score = Some (Fin 80), days_left = Some (Fin 1),
           weekday = None, season = None \<rparr>
       = \<lparr> rec_product_id = None, rec_product_name = None, rec_category = None,
           rec_current_price = Fin 40,
           recommended_price = lit (3461 / 100),
           price_change_percentage = lit (- 1348 / 100),
           rec_demand_score = Fin 80, rec_stock_level = Fin 30, rec_days_left = Fin 1,
           rec_weekday = weekday_long c, rec_season = getCurrentSeason c,
           confidence_score = Fin (75 / 100),
           recommendation_reason = ''Product nearing expiry - urgent price reduction'',
           model_version = ''fallback-1.0'',
           created_at = new_date_ms c, valid_until = date_now_ms c + 86400000,
           is_applied = False \<rparr>"
proof -
  have chain: "rule_chain (Fin 80) (Fin 30) (Fin 1)
     = (js_mul (js_mul (js_mul (lit 1) (lit (105 / 100))) (lit (103 / 100))) (lit (80 / 100)),
        ''Product nearing expiry - urgent price reduction'')"
    by (simp add: rule_chain_def demand_adjustment_Fin stock_adjustment_Fin expiry_adjustment_Fin)
  have mult: "fst (rule_chain (Fin 80) (Fin 30) (Fin 1)) = Fin (1948257198800477 / 2251799813685248)"
    by (simp add: chain_80_30_1)
  have near: "\<bar>1948257198800477 / 2251799813685248 - 8652 / 10000\<bar> < (1 / 10 ^ 15 :: rat)"
    by simp
  have l1: "lit (3461 / 100) = Fin (2435462235988951 / 70368744177664)"
    by (simp add: js_eval)
  have l2: "lit (- 1348 / 100) = Fin (- (3794282686059643 / 281474976710656))"
    by (simp add: js_eval)
  have full: "fallback_recommendation c
         \<lparr> product_id = None, product_name = None, category = None,
           current_price = Some (Fin 40), stock_level = Some (Fin 30),
           demand_score = Some (Fin 80), days_left = Some (Fin 1),
           weekday = None, season = None \<rparr>
       = \<lparr> rec_product_id = None, rec_product_name = None, rec_category = None,
           rec_current_price = Fin 40,
           recommended_price = lit (3461 / 100),
           price_change_percentage = lit (- 1348 / 100),
           rec_demand_score = Fin 80, rec_stock_level = Fin 30, rec_days_left = Fin 1,
           rec_weekday = weekday_long c, rec_season = getCurrentSeason c,
           confidence_score = Fin (75 / 100),
           recommendation_reason = ''Product nearing expiry - urgent price reduction'',
           model_version = ''fallback-1.0'',
           created_at = new_date_ms c, valid_until = date_now_ms c + 86400000,
           is_applied = False \<rparr>"
    unfolding l1 l2
    by (simp add: fallback_recommendation_def or_num_nonzero or_str_def chain_80_30_1 js_eval)
  from chain mult near full show ?thesis by (intro conjI)
qed

text \<open>
  C5. The thresholds of the rule chain are strict where the source compares with \<open>>\<close> or \<open><\<close>
  and inclusive where it writes \<open><=\<close>: a demand score adjusts the multiplier only above 70
  or below 30, so a score of exactly 70 leaves multiplier and reason to the later rules;
  2 days left take the urgent tier (times 0.80), 5 days the lesser tier (times 0.90) and
  6 days neither. The engine takes reason and multiplier from this chain, applied to the
  fields after defaulting.
\<close>

theorem fallback_rule_thresholds:
  "demand_adjustment (Fin x) mr =
     (if 70 < x then (js_mul (fst mr) (lit (105 / 100)), ''High demand detected - price increase recommended'')
      else if x < 30 then (js_mul (fst mr) (lit (95 / 100)), ''Low demand - price reduction to boost sales'')
      else mr)
   \<and> rule_chain (or_num (Some (Fin 70)) (lit 50)) s d
       = expiry_adjustment d (stock_adjustment s (lit 1, ''Current price is optimal''))
   \<and> rule_chain ds s (or_num (Some (Fin 2)) (lit 7))
       = (js_mul (fst (stock_adjustment s (demand_adjustment ds (lit 1, ''Current price is optimal'')))) (lit (80 / 100)),
          ''Product nearing expiry - urgent price reduction'')
   \<and> rule_chain ds s (or_num (Some (Fin 5)) (lit 7))
       = (js_mul (fst (stock_adjustment s (demand_adjustment ds (lit 1, ''Current price is optimal'')))) (lit (90 / 100)),
          ''Product nearing expiry - price reduction to clear stock'')
   \<and> rule_chain ds s (or_num (Some (Fin 6)) (lit 7))
       = stock_adjustment s (demand_adjustment ds (lit 1, ''Current price is optimal''))
   \<and> recommendation_reason (fallback_recommendation c p)
       = snd (rule_chain (or_num (demand_score p) (lit 50)) (or_num (stock_level p) (lit 100))
               (or_num (days_left p) (lit 7)))
   \<and> recommended_price (fallback_recommendation c p)
       = js_div (math_round (js_mul (js_mul (or_num (current_price p) (lit 25))
            (fst (rule_chain (or_num (demand_score p) (lit 50)) (or_num (stock_level p) (lit 100))
               (or_num (days_left p) (lit 7))))) (lit 100))) (lit 100)"
  by (simp add: rule_chain_def or_num_nonzero demand_adjustment_Fin expiry_adjustment_Fin
      fallback_recommendation_def Let_def)

text \<open>
  C10. The defaults are applied with \<open>||\<close>, so a field that is missing, zero or NaN is
  replaced by its default (25, 100, 50, 7): the engine cannot tell a zero from an absent
  field. With \<open>days_left = 0\<close> the days left are 7 and the expiry rule does not fire;
  with \<open>current_price = 0\<close> the recommendation is computed from the price 25.
\<close>

theorem falsy_fields_take_defaults:
  "or_num None d = d \<and> or_num (Some (Fin 0)) d = d \<and> or_num (Some NaN) d = d
   \<and> lit 25 = Fin 25 \<and> lit 100 = Fin 100 \<and> lit 50 = Fin 50 \<and> lit 7 = Fin 7
   \<and> fallback_recommendation c (p\<lparr>current_price := Some (Fin 0)\<rparr>)
       = fallback_recommendation c (p\<lparr>current_price := None\<rparr>)
   \<and> fallback_recommendation c (p\<lparr>stock_level := Some (Fin 0)\<rparr>)
       = fallback_recommendation c (p\<lparr>stock_level := None\<rparr>)
   \<and> fallback_recommendation c (p\<lparr>demand_score := Some (Fin 0)\<rparr>)
       = fallback_recommendation c (p\<lparr>demand_score := None\<rparr>)
   \<and> fallback_recommendation c (p\<lparr>days_left := Some (Fin 0)\<rparr>)
       = fallback_recommendation c (p\<lparr>days_left := None\<rparr>)
   \<and> rec_days_left (fallback_recommendation c (p\<lparr>days_left := Some (Fin 0)\<rparr>)) = Fin 7
   \<and> expiry_adjustment (Fin 7) mr = mr
   \<and> fallback_recommendation c (p\<lparr>days_left := Some (Fin 0)\<rparr>)
       = fallback_recommendation c (p\<lparr>days_left := Some (Fin 7)\<rparr>)
   \<and> rec_current_price (fallback_recommendation c (p\<lparr>current_price := Some (Fin 0)\<rparr>)) = Fin 25
   \<and> fallback_recommendation c (p\<lparr>current_price := Some (Fin 0)\<rparr>)
       = fallback_recommendation c (p\<lparr>current_price := Some (Fin 25)\<rparr>)"
  by (simp add: fallback_recommendation_def Let_def or_num_falsy or_num_nonzero lit_int_values
      expiry_adjustment_Fin)

text \<open>
  C6, as stated, fails: \<open>created_at\<close> and \<open>valid_until\<close> are read from the clock at
  each call, so two calls with the same product at different times differ there.
\<close>

theorem fallback_clock_counterexample:
  "fallback_recommendation \<lparr> weekday_long = ''Tuesday'', month_index = 10, new_date_ms = 1700000000000,
      date_now_ms = 1700000000000 \<rparr>
     \<lparr> product_id = None, product_name = None, category = None,
       current_price = None, stock_level = None, demand_score = None, days_left = None,
       weekday = None, season = None \<rparr>
   \<noteq> fallback_recommendation \<lparr> weekday_long = ''Tuesday'', month_index = 10, new_date_ms = 1700000000001,
      date_now_ms = 1700000000001 \<rparr>
     \<lparr> product_id = None, product_name = None, category = None,
       current_price = None, stock_level = None, demand_score = None, days_left = None,
       weekday = None, season = None \<rparr>"
  by (simp add: fallback_recommendation_def Let_def)

text \<open>
  C6, amended. The product alone determines every field of the recommendation except the
  two time stamps, and except the weekday and the season when the product does not carry
  them: two calls with the same product agree on all other fields whatever the clock
  reads, and a weekday or season supplied by the product is passed through.
\<close>

theorem fallback_deterministic_up_to_clock:
  "(fallback_recommendation c1 p)
      \<lparr> created_at := t, valid_until := u, rec_weekday := w, rec_season := s \<rparr>
   = (fallback_recommendation c2 p)
      \<lparr> created_at := t, valid_until := u, rec_weekday := w, rec_season := s \<rparr>
   \<and> rec_weekday (fallback_recommendation c1 (p\<lparr>weekday := Some (x # xs)\<rparr>)) = x # xs
   \<and> rec_season (fallback_recommendation c1 (p\<lparr>season := Some (y # ys)\<rparr>)) = y # ys
   \<and> created_at (fallback_recommendation c1 p) = new_date_ms c1
   \<and> valid_until (fallback_recommendation c1 p) = date_now_ms c1 + 24 * 60 * 60 * 1000"
  by (simp add: fallback_recommendation_def Let_def or_str_def)
text \<open>
  C7, as stated, fails: the price \<open>2^1023\<close> is a finite Number (about 8.99e307), no rule
  fires for the default context, and \<open>recommendedPrice * 100\<close> overflows: the recommended
  price is \<open>Infinity\<close>.
\<close>

theorem fallback_overflow_counterexample:
  "recommended_price
     (fallback_recommendation \<lparr> weekday_long = ''Tuesday'', month_index = 10, new_date_ms = 1700000000000,
      date_now_ms = 1700000000000 \<rparr>
       \<lparr> product_id = None, product_name = None, category = None,
         current_price = Some (Fin (2 ^ 1023)), stock_level = None, demand_score = None,
         days_left = None, weekday = None, season = None \<rparr>) = PInf"
proof -
  have e: "(2 :: rat) ^ 1023 = pow2 1023" by (simp add: pow2_def)
  have cp: "or_num (Some (Fin (pow2 1023))) (Fin 25) = Fin (pow2 1023)"
    by (simp add: or_num_nonzero)
  have mr: "rule_chain (Fin 50) (Fin 100) (Fin 7) = (Fin 1, ''Current price is optimal'')"
    by (simp add: rule_chain_def demand_adjustment_Fin stock_adjustment_Fin
        expiry_adjustment_Fin lit_int_values)
  have inf100: "js_mul PInf (Fin 100) = PInf"
    by (simp add: js_mul_def sign_of_def inf_of_sign_def)
  have big: "js_mul (js_mul (Fin (pow2 1023)) (Fin 1)) (Fin 100) = PInf"
  proof -
    have "pow2 1023 \<le> pow2 1023 * 1" by simp
    from number_value_ge [OF this]
    consider "number_value (pow2 1023 * 1) = PInf"
      | v where "number_value (pow2 1023 * 1) = Fin v" "pow2 1023 \<le> v"
      by auto
    then show ?thesis
    proof cases
      case 1
      then show ?thesis by (simp only: js_mul_Fin inf100)
    next
      case 2
      have "2 * pow2 1023 = pow2 1024" using pow2_double [of 1023] by simp
      then have "pow2 1024 \<le> v * 100" using 2(2) pow2_pos [of 1023] by linarith
      then have "number_value (v * 100) = PInf" by (rule number_value_overflow)
      then show ?thesis using 2(1) by (simp only: js_mul_Fin)
    qed
  qed
  have fin: "js_div (math_round PInf) (Fin 100) = PInf"
    by (simp add: math_round_def js_div_def sign_of_def inf_of_sign_def)
  show ?thesis
    unfolding e
    by (simp add: fallback_recommendation_def Let_def or_num_falsy lit_int_values cp mr big fin)
qed

text \<open>
  C7, amended. The engine is a total function: none of the operations it uses throws on
  Numbers. For every product whose price is missing, falsy or a finite Number of magnitude
  at most \<open>2^1000\<close>, whatever the other fields are, the recommended price and the
  percentage change are finite Numbers (never NaN, never an infinity).
\<close>

theorem fallback_outputs_finite:
  assumes "price_within_range p"
  shows "is_finite (recommended_price (fallback_recommendation c p))
       \<and> is_finite (price_change_percentage (fallback_recommendation c p))"
proof -
  from or_num_price_cases [OF assms]
  obtain x where x: "or_num (current_price p) (lit 25) = Fin x" "x \<noteq> 0" "\<bar>x\<bar> \<le> pow2 1000"
    by blast
  obtain m where m: "fst (rule_chain (or_num (demand_score p) (lit 50))
      (or_num (stock_level p) (lit 100)) (or_num (days_left p) (lit 7))) = Fin m" "\<bar>m\<bar> \<le> 64"
    using rule_chain_bounded by blast
  show ?thesis
    using outputs_finite_core [OF x(2,3) m(2)]
    by (simp add: fallback_recommendation_def Let_def x(1) m(1))
qed

theorem fallback_outputs_finite_witness:
  "price_within_range
     \<lparr> product_id = None, product_name = None, category = None,
       current_price = Some (Fin 40), stock_level = Some (Fin 30),
       demand_score = Some (Fin 80), days_left = Some (Fin 1),
       weekday = None, season = None \<rparr>
   \<and> is_finite (recommended_price
       (fallback_recommendation \<lparr> weekday_long = ''Tuesday'', month_index = 10, new_date_ms = 1700000000000,
      date_now_ms = 1700000000000 \<rparr>
         \<lparr> product_id = None, product_name = None, category = None,
           current_price = Some (Fin 40), stock_level = Some (Fin 30),
           demand_score = Some (Fin 80), days_left = Some (Fin 1),
           weekday = None, season = None \<rparr>))
   \<and> is_finite (price_change_percentage
       (fallback_recommendation \<lparr> weekday_long = ''Tuesday'', month_index = 10, new_date_ms = 1700000000000,
      date_now_ms = 1700000000000 \<rparr>
         \<lparr> product_id = None, product_name = None, category = None,
           current_price = Some (Fin 40), stock_level = Some (Fin 30),
           demand_score = Some (Fin 80), days_left = Some (Fin 1),
           weekday = None, season = None \<rparr>))"
proof -
  have h: "price_within_range
     \<lparr> product_id = None, product_name = None, category = None,
       current_price = Some (Fin 40), stock_level = Some (Fin 30),
       demand_score = Some (Fin 80), days_left = Some (Fin 1),
       weekday = None, season = None \<rparr>"
    by (simp add: price_within_range_def)
  from fallback_outputs_finite [OF h] h show ?thesis by blast
qed

section \<open>The request pipeline: validation and mapping\<close>

text \<open>
  C8. A batch request whose \<open>products\<close> field is missing, not an array or an empty
  array is answered at once with status 400 (\<open>Products array is required\<close>), in both
  routes; the mapping service is not consulted and the predictor is not started.
\<close>

theorem empty_batch_rejected:
  "post_recommend c Absent mp b = idle\<lparr>headersSent := True, sent := [failure 400 ''Products array is required'' NoMessage]\<rparr>
   \<and> post_recommend c NotArray mp b = idle\<lparr>headersSent := True, sent := [failure 400 ''Products array is required'' NoMessage]\<rparr>
   \<and> post_recommend c (Array []) mp b = idle\<lparr>headersSent := True, sent := [failure 400 ''Products array is required'' NoMessage]\<rparr>
   \<and> post_predict Absent rp b = idle\<lparr>headersSent := True, sent := [failure 400 ''Products array is required'' NoMessage]\<rparr>
   \<and> post_predict NotArray rp b = idle\<lparr>headersSent := True, sent := [failure 400 ''Products array is required'' NoMessage]\<rparr>
   \<and> post_predict (Array []) rp b = idle\<lparr>headersSent := True, sent := [failure 400 ''Products array is required'' NoMessage]\<rparr>
   \<and> res_status (failure 400 ''Products array is required'' NoMessage) = 400
   \<and> \<not> spawned (idle\<lparr>headersSent := True, sent := [failure 400 ''Products array is required'' NoMessage]\<rparr>)
   \<and> \<not> timer_armed (idle\<lparr>headersSent := True, sent := [failure 400 ''Products array is required'' NoMessage]\<rparr>)
   \<and> pending (idle\<lparr>headersSent := True, sent := [failure 400 ''Products array is required'' NoMessage]\<rparr>) = []"
  by (simp add: post_recommend_def post_predict_def respond_def send_def failure_def idle_def)

text \<open>
  C9, as stated, fails: when the mapping step of the demand route throws, the route
  answers with status 400, a client error.
\<close>

theorem demand_mapping_failure_counterexample:
  "map res_status
     (sent (post_predict (Array [''tomato''])
              (\<lambda>items. Settled (MapThrows ''catalog unreachable'')) False)) = [400]"
  by (simp add: post_predict_def respond_def send_def failure_def idle_def)

text \<open>
  C9, amended. A mapping step that throws is a server error (status 500) in the pricing
  route and a client error (status 400, \<open>Product mapping failed\<close>) in the demand route,
  where a mapping that takes more than five seconds is answered alike. Neither route
  treats the failure as zero matches (that answer is \<open>No valid products found after
  mapping\<close>), and neither starts the predictor.
\<close>

theorem mapping_failure_responses:
  assumes "mp (x # xs) = MapThrows m" and "rp (x # xs) = Settled (MapThrows m)"
    and "rt (x # xs) = RaceTimeout"
    and "mz (x # xs) = Mapped []" and "rz (x # xs) = Settled (Mapped [])"
  shows "post_recommend c (Array (x # xs)) mp b
           = idle\<lparr>headersSent := True,
                 sent := [failure 500 ''Failed to generate price recommendations'' (ErrorMessage m)]\<rparr>
       \<and> post_predict (Array (x # xs)) rp b
           = idle\<lparr>headersSent := True,
                 sent := [failure 400 ''Product mapping failed'' (ErrorMessage m)]\<rparr>
       \<and> post_predict (Array (x # xs)) rt b
           = idle\<lparr>headersSent := True,
                 sent := [failure 400 ''Product mapping failed'' (ErrorMessage ''Product mapping timeout'')]\<rparr>
       \<and> post_recommend c (Array (x # xs)) mz b
           = idle\<lparr>headersSent := True,
                 sent := [failure 400 ''No valid products found after mapping'' NoMessage]\<rparr>
       \<and> post_predict (Array (x # xs)) rz b
           = idle\<lparr>headersSent := True,
                 sent := [failure 400 ''No valid products found after mapping'' NoMessage]\<rparr>
       \<and> res_status (failure 500 ''Failed to generate price recommendations'' (ErrorMessage m)) = 500
       \<and> res_status (failure 400 ''Product mapping failed'' (ErrorMessage m)) = 400
       \<and> \<not> spawned (post_recommend c (Array (x # xs)) mp b)
       \<and> \<not> spawned (post_predict (Array (x # xs)) rp b)"
  using assms by (simp add: post_recommend_def post_predict_def respond_def send_def failure_def idle_def)

theorem mapping_failure_responses_witness:
  "post_recommend \<lparr> weekday_long = ''Tuesday'', month_index = 10, new_date_ms = 1700000000000,
      date_now_ms = 1700000000000 \<rparr>
       (Array [''tomato'']) (\<lambda>items. MapThrows ''catalog unreachable'') False
     = idle\<lparr>headersSent := True,
           sent := [failure 500 ''Failed to generate price recommendations'' (ErrorMessage ''catalog unreachable'')]\<rparr>
   \<and> post_predict (Array [''tomato'']) (\<lambda>items. Settled (MapThrows ''catalog unreachable'')) False
     = idle\<lparr>headersSent := True,
           sent := [failure 400 ''Product mapping failed'' (ErrorMessage ''catalog unreachable'')]\<rparr>"
  using mapping_failure_responses [of "\<lambda>items. MapThrows ''catalog unreachable''" "''tomato''" "[]"
      "''catalog unreachable''" "\<lambda>items. Settled (MapThrows ''catalog unreachable'')"
      "\<lambda>items. RaceTimeout" "\<lambda>items. Mapped []" "\<lambda>items. Settled (Mapped [])"
      "\<lparr> weekday_long = ''Tuesday'', month_index = 10, new_date_ms = 1700000000000,
      date_now_ms = 1700000000000 \<rparr>" False]
  by simp

section \<open>The pricing route: outcomes of the predictor\<close>

lemma post_recommend_started:
  "mp (x # xs) = Mapped (p # ps) \<Longrightarrow>
   post_recommend c (Array (x # xs)) mp False
     = idle\<lparr>enrichedProducts := map (enrich c) (p # ps), spawned := True, timer_armed := True\<rparr>"
  by (simp add: post_recommend_def Let_def)





section \<open>The race between the deadline and the process events\<close>

text \<open>
  What holds of the race between the deadline and the process events. The deadline sets
  \<open>responseTimeout\<close>, and the \<open>close\<close> and \<open>error\<close> handlers test it first: after
  the deadline they do nothing, in both routes. A handler that runs first disarms the
  timer, so the deadline cannot follow it.
\<close>

lemma after_deadline_handlers_idle:
  assumes "responseTimeout s"
  shows "pricing_on_close parse c code s = s\<lparr>timer_armed := False\<rparr>"
    and "pricing_on_error c s = s\<lparr>timer_armed := False\<rparr>"
    and "demand_on_close parse code s = s\<lparr>timer_armed := False\<rparr>"
    and "demand_on_error e s = s\<lparr>timer_armed := False\<rparr>"
  using assms
  by (simp_all add: pricing_on_close_def pricing_on_error_def demand_on_close_def
      demand_on_error_def Let_def)

lemma handlers_disarm_timer:
  "\<not> timer_armed (pricing_step parse c (Close code) s)"
  "\<not> timer_armed (pricing_step parse c (ProcError e) s)"
  "\<not> timer_armed (pricing_step parse c TimerFires s)"
  "\<not> timer_armed (demand_step parse (Close code) s)"
  "\<not> timer_armed (demand_step parse (ProcError e) s)"
  "\<not> timer_armed (demand_step parse TimerFires s)"
  by (auto simp add: pricing_step_def pricing_on_close_def pricing_on_error_def
      pricing_on_timeout_def pricing_success_respond_def generateFallbackRecommendations_def
      demand_step_def demand_on_close_def demand_on_error_def demand_on_timeout_def
      demand_success_respond_def await_insert_def respond_def send_def Let_def
      split: option.splits json.splits)

lemma pricing_late_event:
  assumes "responseTimeout s" "\<not> timer_armed s" "process_event ev"
  shows "(pricing_step parse c ev s)\<lparr>outputData := out, errorData := err\<rparr>
           = s\<lparr>outputData := out, errorData := err\<rparr>"
proof (cases ev)
  case (Close code)
  then show ?thesis
    using after_deadline_handlers_idle(1) [OF assms(1)] assms(2) by (simp add: pricing_step_def)
next
  case (ProcError e)
  then show ?thesis
    using after_deadline_handlers_idle(2) [OF assms(1)] assms(2) by (simp add: pricing_step_def)
qed (use assms in \<open>simp_all add: pricing_step_def process_event_def\<close>)

lemma pricing_late_events:
  assumes "responseTimeout s" "\<not> timer_armed s" "list_all process_event evs"
  shows "(run (pricing_step parse c) evs s)\<lparr>outputData := out, errorData := err\<rparr>
           = s\<lparr>outputData := out, errorData := err\<rparr>"
  using assms
proof (induction evs arbitrary: s)
  case Nil
  show ?case by simp
next
  case (Cons ev evs)
  from Cons.prems have pe: "process_event ev" and rest: "list_all process_event evs" by simp_all
  let ?t = "pricing_step parse c ev s"
  have fr: "\<And>out err. ?t\<lparr>outputData := out, errorData := err\<rparr> = s\<lparr>outputData := out, errorData := err\<rparr>"
    by (rule pricing_late_event [OF Cons.prems(1,2) pe])
  have "responseTimeout (?t\<lparr>outputData := [], errorData := []\<rparr>)"
    "\<not> timer_armed (?t\<lparr>outputData := [], errorData := []\<rparr>)"
    unfolding fr using Cons.prems(1,2) by simp_all
  then have "responseTimeout ?t" "\<not> timer_armed ?t" by simp_all
  from Cons.IH [OF this rest]
  have "(run (pricing_step parse c) evs ?t)\<lparr>outputData := out, errorData := err\<rparr>
      = ?t\<lparr>outputData := out, errorData := err\<rparr>" .
  then show ?case by (simp add: fr)
qed

lemma pricing_settle_ignores_output:
  "sent (pricing_settle c i ok s) = sent (pricing_settle c i ok (s\<lparr>outputData := out, errorData := err\<rparr>))"
  by (auto simp add: pricing_settle_def take_pending_def fallback_respond_def
      pricing_success_respond_def generateFallbackRecommendations_def await_insert_def
      respond_def send_def Let_def split: task.splits)

text \<open>
  The deadline first, then any number of late process events, then the settling of the
  fallback's insert: exactly one response, the fallback's.
\<close>

lemma pricing_deadline_then_late_events:
  assumes "mp (x # xs) = Mapped (p # ps)" and "list_all process_event evs"
  shows "sent (run (pricing_step parse c) (TimerFires # evs @ [InsertSettles 0 ok])
                (post_recommend c (Array (x # xs)) mp False))
           = [fallback_response (map (fallback_recommendation c) (map (enrich c) (p # ps)))]"
proof -
  let ?init = "idle\<lparr>enrichedProducts := map (enrich c) (p # ps), spawned := True, timer_armed := True\<rparr>"
  let ?recs = "map (fallback_recommendation c) (map (enrich c) (p # ps))"
  let ?fired = "pricing_step parse c TimerFires ?init"
  have s1: "?fired = ?init\<lparr>responseTimeout := True, timer_armed := False, killed := True,
                        pending := [(FallbackBatch ?recs, FallbackRespond ?recs)]\<rparr>"
    by (simp add: pricing_step_def pricing_on_timeout_def generateFallbackRecommendations_def
        await_insert_def idle_def Let_def)
  have "responseTimeout ?fired" "\<not> timer_armed ?fired" unfolding s1 by simp_all
  from pricing_late_events [OF this assms(2)]
  have late: "(run (pricing_step parse c) evs ?fired)\<lparr>outputData := [], errorData := []\<rparr>
      = ?fired\<lparr>outputData := [], errorData := []\<rparr>" .
  have app: "\<And>t. run (pricing_step parse c) (evs @ [InsertSettles 0 ok]) t
        = pricing_settle c 0 ok (run (pricing_step parse c) evs t)"
    by (induction evs) (simp_all add: pricing_step_def)
  have "sent (run (pricing_step parse c) (TimerFires # evs @ [InsertSettles 0 ok]) ?init)
      = sent (pricing_settle c 0 ok (run (pricing_step parse c) evs ?fired))"
    by (simp add: app)
  also have "\<dots> = sent (pricing_settle c 0 ok (?fired\<lparr>outputData := [], errorData := []\<rparr>))"
    by (subst pricing_settle_ignores_output [where out = "[]" and err = "[]"]) (simp only: late)
  also have "\<dots> = [fallback_response ?recs]"
    unfolding s1
    by (simp add: pricing_settle_def take_pending_def fallback_respond_def send_def idle_def)
  finally show ?thesis
    unfolding post_recommend_started [of mp x xs p ps c, OF assms(1)] .
qed

text \<open>
  C1 fails in the pricing route when the \<open>error\<close> event is followed by the \<open>close\<close>
  event, as it is when the process cannot be started. The \<open>error\<close> handler starts the
  fallback, which awaits its insert before it responds; \<open>headersSent\<close> is still false and
  \<open>responseTimeout\<close> is set by the deadline only, so the \<open>close\<close> handler passes the
  guard and starts the fallback a second time. Both inserts are stored, one response is
  written, and the second attempt to respond throws out of the fallback.
\<close>

theorem pricing_error_then_close_not_idle:
  "let c = \<lparr> weekday_long = ''Tuesday'', month_index = 10, new_date_ms = 1700000000000,
      date_now_ms = 1700000000000 \<rparr>;
       p = \<lparr> product_id = Some ''P1'', product_name = Some ''Tomato'',
             category = Some ''Vegetables'', current_price = Some (Fin 40),
             stock_level = Some (Fin 30), demand_score = Some (Fin 80),
             days_left = Some (Fin 1), weekday = None, season = None \<rparr>;
       recs = map (fallback_recommendation c) [enrich c p];
       s0 = post_recommend c (Array [''tomato'']) (\<lambda>items. Mapped [p]) False;
       s1 = pricing_step parse c (ProcError ''spawn python ENOENT'') s0;
       s2 = pricing_step parse c (Close (Some (- 2))) s1;
       s4 = run (pricing_step parse c) [InsertSettles 0 True, InsertSettles 0 True] s2
   in \<not> headersSent s1 \<and> \<not> responseTimeout s1
    \<and> pending s1 = [(FallbackBatch recs, FallbackRespond recs)]
    \<and> pending s2 = [(FallbackBatch recs, FallbackRespond recs), (FallbackBatch recs, FallbackRespond recs)]
    \<and> persisted s4 = [FallbackBatch recs, FallbackBatch recs]
    \<and> sent s4 = [fallback_response recs]
    \<and> unhandled s4 = 1"
  by (simp add: Let_def post_recommend_def pricing_step_def pricing_on_error_def
      pricing_on_close_def generateFallbackRecommendations_def await_insert_def
      pricing_settle_def take_pending_def fallback_respond_def respond_def send_def idle_def)

section \<open>The demand route: outcomes of the predictor\<close>

lemma post_predict_started:
  "rp (x # xs) = Settled (Mapped (p # ps)) \<Longrightarrow>
   post_predict (Array (x # xs)) rp False
     = idle\<lparr>enrichedProducts := p # ps, spawned := True, timer_armed := True\<rparr>"
  by (simp add: post_predict_def Let_def)

text \<open>Once the demand route has responded and awaits nothing, no event changes what was sent or stored.\<close>

lemma demand_done_step:
  assumes "headersSent s" "pending s = []"
  shows "headersSent (demand_step parse ev s) \<and> pending (demand_step parse ev s) = []
       \<and> sent (demand_step parse ev s) = sent s \<and> persisted (demand_step parse ev s) = persisted s"
  using assms
  by (cases ev)
    (simp_all add: demand_step_def demand_on_timeout_def demand_on_close_def demand_on_error_def
      demand_settle_def take_pending_def Let_def)

lemma demand_done_run:
  assumes "headersSent s" "pending s = []"
  shows "sent (run (demand_step parse) evs s) = sent s
       \<and> persisted (run (demand_step parse) evs s) = persisted s"
  using assms
proof (induction evs arbitrary: s)
  case Nil
  show ?case by simp
next
  case (Cons ev evs)
  from demand_done_step [OF Cons.prems, of parse ev] Cons.IH [of "demand_step parse ev s"]
  show ?case by simp
qed

text \<open>
  The deadline first in the demand route: the timeout response is written at once, and
  whatever follows changes neither what was sent nor what is stored.
\<close>

lemma demand_deadline_then_events:
  assumes "rp (x # xs) = Settled (Mapped (p # ps))"
  shows "sent (run (demand_step parse) (TimerFires # evs) (post_predict (Array (x # xs)) rp False))
           = [failure 500 ''Model prediction timeout'' (TimeLimit 60000)]
       \<and> persisted (run (demand_step parse) (TimerFires # evs) (post_predict (Array (x # xs)) rp False)) = []"
proof -
  let ?init = "idle\<lparr>enrichedProducts := p # ps, spawned := True, timer_armed := True\<rparr>"
  let ?fired = "demand_step parse TimerFires ?init"
  have f: "headersSent ?fired" "pending ?fired = []" "persisted ?fired = []"
    "sent ?fired = [failure 500 ''Model prediction timeout'' (TimeLimit 60000)]"
    by (simp_all add: demand_step_def demand_on_timeout_def respond_def send_def idle_def Let_def)
  from demand_done_run [OF f(1,2), of parse evs] f(3,4)
  show ?thesis
    unfolding post_predict_started [of rp x xs p ps, OF assms] by simp
qed

text \<open>
  Whatever the events, what the demand route awaits and what the store has accepted are
  the items of parsed payloads with a truthy \<open>success\<close>.
\<close>

lemma respond_frame [simp]:
  "pending (respond r s) = pending s" "persisted (respond r s) = persisted s"
  by (simp_all add: respond_def send_def split: option.splits)

lemma demand_success_respond_frame [simp]:
  "pending (demand_success_respond q s) = pending s"
  "persisted (demand_success_respond q s) = persisted s"
  by (simp_all add: demand_success_respond_def send_def)





end
